theory Spec2Isabelle
  imports Complex_Main "HOL-Library.Word" "HOL-Library.Code_Target_Nat"
begin

unbundle bit_operations_syntax

section \<open>The streaming analysis client (\<open>runAnalysis\<close>)\<close>

text \<open>
  The development embeds \<open>runAnalysis\<close> of the API module: the request body it sends,
  the incremental decoding of the response body, the framing of the decoded text into
  lines, the dispatch of each \<open>data: \<close> line to one of the three callbacks, and the
  two \<open>catch\<close> blocks. The platform operations the function calls are modelled as
  follows.

  \<^item> A JavaScript string is the list of its code points (\<open>js_string\<close>); a \<open>Uint8Array\<close> is a
    list of bytes.
  \<^item> \<open>TextDecoder.decode(value, {stream: true})\<close> is the UTF-8 decoder of the Encoding
    standard, a state machine fed byte by byte, with the replacement character for
    malformed input and a leading byte order mark removed.
  \<^item> \<open>JSON.parse\<close> is a parameter \<open>parse\<close> of the model: it returns the parsed value or
    the exception it throws. Every theorem holds for every such function.
  \<^item> The transport (\<open>fetch\<close> and the body reader) is a script: how the \<open>fetch\<close> promise
    settles and what happens at each successive \<open>await reader.read()\<close>.
  \<^item> The callbacks are caller code. A callback may invoke the cancel function it was
    handed by \<open>runAnalysis\<close> (the parameter \<open>cancels\<close> says for which calls it does) and
    then returns normally; a callback that throws is outside the model.
  \<^item> Numbers are the finite values of a JavaScript number, as rationals.

  JavaScript runs one thing at a time: code outside \<open>runStream\<close> runs only while
  \<open>runStream\<close> is suspended at an \<open>await\<close>, or inside a callback that \<open>runStream\<close> calls.
  These are the two places where the cancel function can be invoked.
\<close>

subsection \<open>Strings and bytes\<close>

type_synonym js_string = "nat list"
type_synonym byte = "8 word"

definition lit :: "string \<Rightarrow> js_string" where
  "lit s = map of_char s"

definition utf8 :: "string \<Rightarrow> byte list" where
  "utf8 s = map of_char s"

definition newline :: nat where
  "newline = 10"

text \<open>\<open>WhiteSpace\<close> and \<open>LineTerminator\<close> code points, which \<open>String.prototype.trim\<close> removes.\<close>

definition is_white_space :: "nat \<Rightarrow> bool" where
  "is_white_space c =
     (c = 0x09 \<or> c = 0x0A \<or> c = 0x0B \<or> c = 0x0C \<or> c = 0x0D \<or> c = 0x20 \<or> c = 0xA0
      \<or> c = 0x1680 \<or> (0x2000 \<le> c \<and> c \<le> 0x200A) \<or> c = 0x2028 \<or> c = 0x2029
      \<or> c = 0x202F \<or> c = 0x205F \<or> c = 0x3000 \<or> c = 0xFEFF)"

definition trim :: "js_string \<Rightarrow> js_string" where
  "trim s = rev (dropWhile is_white_space (rev (dropWhile is_white_space s)))"

definition startsWith :: "js_string \<Rightarrow> js_string \<Rightarrow> bool" where
  "startsWith s p = (take (length p) s = p)"

definition slice_from :: "js_string \<Rightarrow> nat \<Rightarrow> js_string" where
  "slice_from s n = drop n s"

text \<open>\<open>s.split(sep)\<close> for a one-character separator: never empty, \<open>''.split(sep)\<close> is \<open>['']\<close>.\<close>

fun split :: "js_string \<Rightarrow> nat \<Rightarrow> js_string list" where
  "split [] sep = [[]]"
| "split (c # s) sep =
     (if c = sep then [] # split s sep
      else (case split s sep of
              [] \<Rightarrow> [[c]]
            | l # ls \<Rightarrow> (c # l) # ls))"

text \<open>\<open>lines.pop()\<close>: removes the last element and returns it, \<open>undefined\<close> on an empty array.\<close>

definition pop :: "js_string list \<Rightarrow> js_string list \<times> js_string option" where
  "pop ls = (if ls = [] then ([], None) else (butlast ls, Some (last ls)))"

text \<open>Decimal rendering of a non-negative integer, as a template literal renders it.\<close>

fun digits :: "nat \<Rightarrow> js_string" where
  "digits n = (if n < 10 then [48 + n] else digits (n div 10) @ [48 + n mod 10])"

declare digits.simps [simp del]

subsection \<open>The UTF-8 decoder behind \<open>TextDecoder\<close>\<close>

record utf8_decoder =
  code_point :: nat
  bytes_seen :: nat
  bytes_needed :: nat
  lower_boundary :: byte
  upper_boundary :: byte
  bom_seen :: bool

definition new_decoder :: utf8_decoder where
  "new_decoder = \<lparr>code_point = 0, bytes_seen = 0, bytes_needed = 0,
     lower_boundary = 0x80, upper_boundary = 0xBF, bom_seen = False\<rparr>"

definition replacement :: nat where
  "replacement = 0xFFFD"

text \<open>The handler on a byte when no sequence is open (\<open>bytes_needed = 0\<close>).\<close>

definition lead_byte :: "utf8_decoder \<Rightarrow> byte \<Rightarrow> utf8_decoder \<times> nat list" where
  "lead_byte d b =
     (if b \<le> 0x7F then (d, [unat b])
      else if 0xC2 \<le> b \<and> b \<le> 0xDF then
        (d\<lparr>bytes_needed := 1, code_point := unat (b AND 0x1F)\<rparr>, [])
      else if 0xE0 \<le> b \<and> b \<le> 0xEF then
        (d\<lparr>lower_boundary := (if b = 0xE0 then 0xA0 else lower_boundary d),
           upper_boundary := (if b = 0xED then 0x9F else upper_boundary d),
           bytes_needed := 2, code_point := unat (b AND 0xF)\<rparr>, [])
      else if 0xF0 \<le> b \<and> b \<le> 0xF4 then
        (d\<lparr>lower_boundary := (if b = 0xF0 then 0x90 else lower_boundary d),
           upper_boundary := (if b = 0xF4 then 0x8F else upper_boundary d),
           bytes_needed := 3, code_point := unat (b AND 0x7)\<rparr>, [])
      else (d, [replacement]))"

text \<open>
  The handler on one byte. A byte outside the boundaries of an open sequence closes the
  sequence with the replacement character and is then read again as a lead byte.
\<close>

definition utf8_handler :: "utf8_decoder \<Rightarrow> byte \<Rightarrow> utf8_decoder \<times> nat list" where
  "utf8_handler d b =
     (if bytes_needed d = 0 then lead_byte d b
      else if \<not> (lower_boundary d \<le> b \<and> b \<le> upper_boundary d) then
        (let d0 = d\<lparr>code_point := 0, bytes_needed := 0, bytes_seen := 0,
                      lower_boundary := 0x80, upper_boundary := 0xBF\<rparr>;
             (d1, out) = lead_byte d0 b
         in (d1, replacement # out))
      else
        (let d1 = d\<lparr>lower_boundary := 0x80, upper_boundary := 0xBF,
                      code_point := push_bit 6 (code_point d) OR unat (b AND 0x3F),
                      bytes_seen := bytes_seen d + 1\<rparr>
         in if bytes_seen d1 \<noteq> bytes_needed d1 then (d1, [])
            else (d1\<lparr>code_point := 0, bytes_needed := 0, bytes_seen := 0\<rparr>,
                  [code_point d1])))"

text \<open>The first code point of the whole stream is dropped when it is the byte order mark.\<close>

fun strip_bom :: "bool \<Rightarrow> nat list \<Rightarrow> bool \<times> nat list" where
  "strip_bom seen [] = (seen, [])"
| "strip_bom seen (c # cs) = (True, if \<not> seen \<and> c = 0xFEFF then cs else c # cs)"

definition decode_byte :: "utf8_decoder \<Rightarrow> byte \<Rightarrow> utf8_decoder \<times> js_string" where
  "decode_byte d b =
     (let (d1, out) = utf8_handler d b;
          (seen, out') = strip_bom (bom_seen d1) out
      in (d1\<lparr>bom_seen := seen\<rparr>, out'))"

text \<open>\<open>decoder.decode(value, {stream: true})\<close>: the decoder keeps its state, nothing is flushed.\<close>

fun decode :: "utf8_decoder \<Rightarrow> byte list \<Rightarrow> utf8_decoder \<times> js_string" where
  "decode d [] = (d, [])"
| "decode d (b # bs) =
     (let (d1, out1) = decode_byte d b;
          (d2, out2) = decode d1 bs
      in (d2, out1 @ out2))"

subsection \<open>JSON values, exceptions and the observable events\<close>

text \<open>
  A value \<open>JSON.parse\<close> returns. An object is the list of its members, each key once.
  A JavaScript value that may be \<open>undefined\<close> is a \<open>json option\<close>, \<open>None\<close> being \<open>undefined\<close>.
\<close>

datatype json =
    JNull
  | JBool bool
  | JNum rat
  | JStr js_string
  | JArr "json list"
  | JObj "(js_string \<times> json) list"

datatype js_error = JsError (error_name: js_string) (error_message: js_string)

text \<open>
  \<open>data.key\<close> on a parsed value other than \<open>null\<close>, for the keys the client reads
  (\<open>type\<close>, \<open>result\<close>, \<open>message\<close>): the member of an object, \<open>undefined\<close> on everything else.
  On \<open>null\<close> the access throws a \<open>TypeError\<close>.
\<close>

definition member :: "json \<Rightarrow> js_string \<Rightarrow> json option" where
  "member v k = (case v of JObj kvs \<Rightarrow> map_of kvs k | _ \<Rightarrow> None)"

definition null_access :: js_error where
  "null_access = JsError (lit ''TypeError'') (lit ''Cannot read properties of null'')"

text \<open>Truthiness, and the operator \<open>v || d\<close>.\<close>

fun truthy :: "json option \<Rightarrow> bool" where
  "truthy None = False"
| "truthy (Some JNull) = False"
| "truthy (Some (JBool b)) = b"
| "truthy (Some (JNum n)) = (n \<noteq> 0)"
| "truthy (Some (JStr s)) = (s \<noteq> [])"
| "truthy (Some (JArr vs)) = True"
| "truthy (Some (JObj kvs)) = True"

definition js_or :: "json option \<Rightarrow> json \<Rightarrow> json" where
  "js_or v d = (case v of None \<Rightarrow> d | Some x \<Rightarrow> if truthy (Some x) then x else d)"

text \<open>What a run does that its caller can observe, in the order it happens.\<close>

datatype callback =
    OnProgress json
  | OnComplete "json option"
  | OnError json

datatype console =
    ConsoleError js_string js_error
  | ConsoleLog js_string

datatype event =
    FetchCalled json
  | HandleReturned
  | Callback callback
  | CancelInvoked
  | Console console

subsection \<open>The request body\<close>

record AnalysisRequest =
  tickers :: "js_string list"
  selectedAnalysts :: "js_string list"
  modelProvider :: js_string
  modelName :: js_string
  startDate :: "js_string option"
  endDate :: "js_string option"
  initialCash :: "rat option"
  marginRequirement :: "rat option"

text \<open>
  \<open>JSON.stringify\<close> of an object literal leaves out the members whose value is
  \<open>undefined\<close>. The body is kept as the JSON value that is serialised.
\<close>

definition stringify_object :: "(js_string \<times> json option) list \<Rightarrow> json" where
  "stringify_object kvs =
     JObj (List.map_filter (\<lambda>(k, v). map_option (Pair k) v) kvs)"

definition request_body :: "AnalysisRequest \<Rightarrow> json" where
  "request_body request =
     stringify_object
       [(lit ''tickers'', Some (JArr (map JStr (tickers request)))),
        (lit ''selected_agents'', Some (JArr (map JStr (selectedAnalysts request)))),
        (lit ''model_name'', Some (JStr (modelName request))),
        (lit ''model_provider'', Some (JStr (modelProvider request))),
        (lit ''start_date'', map_option JStr (startDate request)),
        (lit ''end_date'', map_option JStr (endDate request)),
        (lit ''initial_cash'', Some (js_or (map_option JNum (initialCash request)) (JNum 100000))),
        (lit ''margin_requirement'',
           Some (js_or (map_option JNum (marginRequirement request)) (JNum 0)))]"

subsection \<open>Dispatching one line\<close>

text \<open>
  Calling a callback. The controller is aborted once the callback has invoked the cancel
  function; \<open>aborted\<close> is \<open>controller.signal.aborted\<close>.
\<close>

definition invoke :: "(callback \<Rightarrow> bool) \<Rightarrow> callback \<Rightarrow> bool \<Rightarrow> event list \<times> bool" where
  "invoke cancels c aborted =
     (if cancels c then ([Callback c, CancelInvoked], True) else ([Callback c], aborted))"

datatype flow = Continue | Return

text \<open>
  The body of the inner \<open>try\<close>: \<open>Inl\<close> is the exception it throws (from \<open>JSON.parse\<close>, or
  from \<open>data.type\<close> on \<open>null\<close>), \<open>Inr\<close> the events, whether the function returned, and the
  controller's flag.
\<close>

definition try_frame ::
  "(callback \<Rightarrow> bool) \<Rightarrow> (js_string \<Rightarrow> js_error + json) \<Rightarrow> js_string \<Rightarrow> bool
     \<Rightarrow> js_error + (event list \<times> flow \<times> bool)" where
  "try_frame cancels parse line aborted =
     (case parse (slice_from line 6) of
        Inl e \<Rightarrow> Inl e
      | Inr data \<Rightarrow>
          if data = JNull then Inl null_access
          else if member data (lit ''type'') = Some (JStr (lit ''progress'')) then
            (let (evs, ab) = invoke cancels (OnProgress data) aborted
             in Inr (evs, Continue, ab))
          else if member data (lit ''type'') = Some (JStr (lit ''complete'')) then
            (let (evs, ab) = invoke cancels (OnComplete (member data (lit ''result''))) aborted
             in Inr (evs, Return, ab))
          else if member data (lit ''type'') = Some (JStr (lit ''error'')) then
            (let (evs, ab) =
               invoke cancels
                 (OnError (js_or (member data (lit ''message'')) (JStr (lit ''Analysis failed''))))
                 aborted
             in Inr (evs, Return, ab))
          else Inr ([], Continue, aborted))"

text \<open>The body of the \<open>for\<close> loop, for one line.\<close>

definition for_body ::
  "(callback \<Rightarrow> bool) \<Rightarrow> (js_string \<Rightarrow> js_error + json) \<Rightarrow> js_string \<Rightarrow> bool
     \<Rightarrow> event list \<times> flow \<times> bool" where
  "for_body cancels parse line aborted =
     (if trim line = [] then ([], Continue, aborted)
      else if startsWith line (lit ''data: '') then
        (case try_frame cancels parse line aborted of
           Inl parseError \<Rightarrow>
             ([Console (ConsoleError (lit ''Error parsing SSE data:'') parseError)],
              Continue, aborted)
         | Inr r \<Rightarrow> r)
      else ([], Continue, aborted))"

text \<open>The \<open>for\<close> loop over the lines of one chunk; \<open>Return\<close> leaves the function.\<close>

fun for_lines ::
  "(callback \<Rightarrow> bool) \<Rightarrow> (js_string \<Rightarrow> js_error + json) \<Rightarrow> js_string list \<Rightarrow> bool
     \<Rightarrow> event list \<times> flow \<times> bool" where
  "for_lines cancels parse [] aborted = ([], Continue, aborted)"
| "for_lines cancels parse (line # rest) aborted =
     (case for_body cancels parse line aborted of
        (evs, Return, ab) \<Rightarrow> (evs, Return, ab)
      | (evs, Continue, ab) \<Rightarrow>
          (case for_lines cancels parse rest ab of
             (evs', fl, ab') \<Rightarrow> (evs @ evs', fl, ab')))"

subsection \<open>The transport\<close>

text \<open>
  How the \<open>fetch\<close> promise settles: with a response (its status, and whether it has a
  body), with a rejection, or because the caller invokes the cancel function while the
  request is pending, which aborts the controller and rejects \<open>fetch\<close> with an \<open>AbortError\<close>.
\<close>

datatype response = Response (status: nat) (has_body: bool)

definition ok :: "response \<Rightarrow> bool" where
  "ok r = (200 \<le> status r \<and> status r \<le> 299)"

datatype fetch_event =
    FetchResolves response
  | FetchRejects js_error
  | CancelDuringFetch

text \<open>
  What happens at one \<open>await reader.read()\<close>: a chunk arrives, the stream is done, the read
  rejects, or the caller invokes the cancel function while the read is pending. A script
  is the list of these, one for each successive read; a run that reads beyond its script
  is left pending. Entries a run never reaches are bytes that arrive after it has ended.
\<close>

datatype read_event =
    Chunk "byte list"
  | Done
  | ReadRejects js_error
  | CancelDuringRead

definition abort_error :: js_error where
  "abort_error = JsError (lit ''AbortError'') (lit ''The user aborted a request.'')"

subsection \<open>The read loop and the two catch blocks\<close>

text \<open>How the body of the outer \<open>try\<close> ends: normally, with an exception, or not yet.\<close>

datatype completion = Normal | Throws js_error | Awaiting

text \<open>
  The \<open>while (true)\<close> loop. Once the controller is aborted the body stream is errored,
  so the next \<open>reader.read()\<close> rejects with the \<open>AbortError\<close>.
\<close>

fun while_loop ::
  "(callback \<Rightarrow> bool) \<Rightarrow> (js_string \<Rightarrow> js_error + json) \<Rightarrow> utf8_decoder \<Rightarrow> js_string \<Rightarrow> bool
     \<Rightarrow> read_event list \<Rightarrow> event list \<times> completion" where
  "while_loop cancels parse decoder buffer aborted [] =
     (if aborted then ([], Throws abort_error) else ([], Awaiting))"
| "while_loop cancels parse decoder buffer aborted (r # reads) =
     (if aborted then ([], Throws abort_error)
      else
        (case r of
           CancelDuringRead \<Rightarrow> ([CancelInvoked], Throws abort_error)
         | ReadRejects e \<Rightarrow> ([], Throws e)
         | Done \<Rightarrow> ([], Normal)
         | Chunk bs \<Rightarrow>
             (case decode decoder bs of
                (decoder', decoded) \<Rightarrow>
                  (case pop (split (buffer @ decoded) newline) of
                     (lines, popped) \<Rightarrow>
                       (case for_lines cancels parse lines aborted of
                          (evs, Return, ab) \<Rightarrow> (evs, Normal)
                        | (evs, Continue, ab) \<Rightarrow>
                            (case while_loop cancels parse decoder'
                                    (case popped of None \<Rightarrow> [] | Some l \<Rightarrow> l) ab reads of
                               (evs', c) \<Rightarrow> (evs @ evs', c)))))))"

text \<open>The body of the outer \<open>try\<close>, from the point where \<open>fetch\<close> settles.\<close>

definition try_stream ::
  "(callback \<Rightarrow> bool) \<Rightarrow> (js_string \<Rightarrow> js_error + json) \<Rightarrow> fetch_event \<Rightarrow> read_event list
     \<Rightarrow> event list \<times> completion" where
  "try_stream cancels parse fetched reads =
     (case fetched of
        CancelDuringFetch \<Rightarrow> ([CancelInvoked], Throws abort_error)
      | FetchRejects e \<Rightarrow> ([], Throws e)
      | FetchResolves r \<Rightarrow>
          if \<not> ok r then
            ([], Throws (JsError (lit ''Error'') (lit ''HTTP error! status: '' @ digits (status r))))
          else if \<not> has_body r then
            ([], Throws (JsError (lit ''Error'') (lit ''Failed to get response reader'')))
          else while_loop cancels parse new_decoder [] False reads)"

text \<open>The outer \<open>catch\<close> block.\<close>

definition catch_block :: "(callback \<Rightarrow> bool) \<Rightarrow> js_error \<Rightarrow> event list" where
  "catch_block cancels error =
     (if error_name error = lit ''AbortError'' then
        [Console (ConsoleLog (lit ''Analysis cancelled''))]
      else
        Console (ConsoleError (lit ''Analysis error:'') error)
        # fst (invoke cancels
                 (OnError (js_or (Some (JStr (error_message error))) (JStr (lit ''Analysis failed''))))
                 False))"

text \<open>
  \<open>runStream\<close> after its first \<open>await\<close>: the events of the run and the state of the
  promise the \<open>async\<close> function returned. An exception that left the function would
  reject the promise.
\<close>

datatype promise = Fulfilled | Rejected js_error | Pending

definition runStream ::
  "(callback \<Rightarrow> bool) \<Rightarrow> (js_string \<Rightarrow> js_error + json) \<Rightarrow> fetch_event \<Rightarrow> read_event list
     \<Rightarrow> event list \<times> promise" where
  "runStream cancels parse fetched reads =
     (case try_stream cancels parse fetched reads of
        (evs, Normal) \<Rightarrow> (evs, Fulfilled)
      | (evs, Throws error) \<Rightarrow> (evs @ catch_block cancels error, Fulfilled)
      | (evs, Awaiting) \<Rightarrow> (evs, Pending))"

text \<open>
  \<open>runAnalysis\<close>: the call of \<open>runStream()\<close> runs up to \<open>await fetch(...)\<close>, which issues
  the request and suspends; \<open>runAnalysis\<close> then returns the cancel function. Everything
  else happens after that, when the transport settles the promises.
\<close>

definition runAnalysis ::
  "AnalysisRequest \<Rightarrow> (callback \<Rightarrow> bool) \<Rightarrow> (js_string \<Rightarrow> js_error + json) \<Rightarrow> fetch_event
     \<Rightarrow> read_event list \<Rightarrow> event list \<times> promise" where
  "runAnalysis request cancels parse fetched reads =
     (case runStream cancels parse fetched reads of
        (evs, p) \<Rightarrow> (FetchCalled (request_body request) # HandleReturned # evs, p))"

subsection \<open>Observations on a run\<close>

fun callbacks_of :: "event list \<Rightarrow> callback list" where
  "callbacks_of [] = []"
| "callbacks_of (Callback c # evs) = c # callbacks_of evs"
| "callbacks_of (e # evs) = callbacks_of evs"



text \<open>A response with a body and a 2xx status.\<close>

definition ok_response :: fetch_event where
  "ok_response = FetchResolves (Response 200 True)"

text \<open>Callbacks that never invoke the cancel function: it is then only invoked from
  outside, while the run is suspended at an \<open>await\<close>.\<close>

definition never :: "callback \<Rightarrow> bool" where
  "never c = False"



subsection \<open>Sample data for the worked examples\<close>

text \<open>
  The JSON texts of the examples and the values \<open>JSON.parse\<close> returns on them.
  \<open>sample_parse\<close> is \<open>JSON.parse\<close> on these texts; on every other text of the examples,
  none of which is JSON, it throws a \<open>SyntaxError\<close> as \<open>JSON.parse\<close> does.
\<close>

definition json_progress_A :: string where
  \<open>json_progress_A = ''{"type":"progress","status":"A"}''\<close>

definition json_progress_B :: string where
  \<open>json_progress_B = ''{"type":"progress","status":"B"}''\<close>

definition json_complete_C :: string where
  \<open>json_complete_C = ''{"type":"complete","result":{}}''\<close>

definition json_error_insufficient :: string where
  \<open>json_error_insufficient = ''{"type":"error","message":"insufficient data"}''\<close>

definition json_error_empty_message :: string where
  \<open>json_error_empty_message = ''{"type":"error","message":""}''\<close>

definition json_error_no_message :: string where
  \<open>json_error_no_message = ''{"type":"error"}''\<close>

definition json_heartbeat :: string where
  \<open>json_heartbeat = ''{"type":"heartbeat"}''\<close>

definition json_malformed :: string where
  \<open>json_malformed = ''{"type":"progress",''\<close>

text \<open>A progress frame whose status is \<open>caf\<close> followed by U+00E9, two bytes in UTF-8.\<close>

definition text_progress_cafe :: js_string where
  \<open>text_progress_cafe = lit ''{"type":"progress","status":"caf'' @ [0xE9] @ lit ''"}''\<close>

definition progress_A :: json where
  "progress_A = JObj [(lit ''type'', JStr (lit ''progress'')), (lit ''status'', JStr (lit ''A''))]"

definition progress_B :: json where
  "progress_B = JObj [(lit ''type'', JStr (lit ''progress'')), (lit ''status'', JStr (lit ''B''))]"

definition complete_C :: json where
  "complete_C = JObj [(lit ''type'', JStr (lit ''complete'')), (lit ''result'', JObj [])]"

definition error_insufficient :: json where
  "error_insufficient =
     JObj [(lit ''type'', JStr (lit ''error'')), (lit ''message'', JStr (lit ''insufficient data''))]"

definition error_empty_message :: json where
  "error_empty_message = JObj [(lit ''type'', JStr (lit ''error'')), (lit ''message'', JStr [])]"

definition error_no_message :: json where
  "error_no_message = JObj [(lit ''type'', JStr (lit ''error''))]"

definition heartbeat :: json where
  "heartbeat = JObj [(lit ''type'', JStr (lit ''heartbeat''))]"

definition progress_cafe :: json where
  "progress_cafe =
     JObj [(lit ''type'', JStr (lit ''progress'')), (lit ''status'', JStr (lit ''caf'' @ [0xE9]))]"

definition syntax_error :: js_error where
  "syntax_error = JsError (lit ''SyntaxError'') (lit ''Unexpected token'')"

definition sample_parse :: "js_string \<Rightarrow> js_error + json" where
  "sample_parse s =
     (if s = lit json_progress_A then Inr progress_A
      else if s = lit json_progress_B then Inr progress_B
      else if s = lit json_complete_C then Inr complete_C
      else if s = lit json_error_insufficient then Inr error_insufficient
      else if s = lit json_error_empty_message then Inr error_empty_message
      else if s = lit json_error_no_message then Inr error_no_message
      else if s = lit json_heartbeat then Inr heartbeat
      else if s = text_progress_cafe then Inr progress_cafe
      else Inl syntax_error)"

text \<open>A frame as a line of the decoded text, and as the bytes the backend sends for it.\<close>

definition data_line :: "string \<Rightarrow> js_string" where
  "data_line json = lit (''data: '' @ json)"

definition sse :: "string \<Rightarrow> byte list" where
  "sse json = utf8 (''data: '' @ json @ ''\<newline>'')"

definition sample_request :: AnalysisRequest where
  "sample_request =
     \<lparr>tickers = [lit ''AAPL''], selectedAnalysts = [lit ''warren_buffett''],
      modelProvider = lit ''OpenAI'', modelName = lit ''gpt-4o'',
      startDate = None, endDate = Some (lit ''2024-06-30''),
      initialCash = Some 0, marginRequirement = Some (1 / 2)\<rparr>"





section \<open>Properties\<close>

subsection \<open>Decoding and framing\<close>


lemma split_not_Nil [simp]: "split s sep \<noteq> []"
  by (induction s) (auto split: list.splits)





lemma all_dropWhile: "(\<forall>c \<in> set (dropWhile P s). P c) \<longleftrightarrow> (\<forall>c \<in> set s. P c)"
  by (induction s) auto

lemma trim_empty_iff: "trim s = [] \<longleftrightarrow> (\<forall>c \<in> set s. is_white_space c)"
  by (simp add: trim_def dropWhile_eq_Nil_conv all_dropWhile)

lemma data_prefix: "lit ''data: '' = [100, 97, 116, 97, 58, 32]"
  by (simp add: lit_def)

lemma startsWith_data_trim:
  assumes "startsWith l (lit ''data: '')"
  shows "trim l \<noteq> []"
proof -
  from assms have "take (length (lit ''data: '')) l = lit ''data: ''"
    by (simp only: startsWith_def)
  then have "l = lit ''data: '' @ drop (length (lit ''data: '')) l"
    by (metis append_take_drop_id)
  then have "set (lit ''data: '') \<subseteq> set l"
    by (metis set_append Un_upper1)
  moreover have "100 \<in> set (lit ''data: '')"
    by (simp add: data_prefix)
  ultimately have "100 \<in> set l" by blast
  moreover have "\<not> is_white_space 100" by (simp add: is_white_space_def)
  ultimately show ?thesis by (auto simp: trim_empty_iff)
qed



subsection \<open>The shape of what one line and one chunk dispatch\<close>

lemma callbacks_of_append [simp]: "callbacks_of (a @ b) = callbacks_of a @ callbacks_of b"
  by (induction a rule: callbacks_of.induct) auto

lemma invoke_never [simp]: "invoke never c ab = ([Callback c], ab)"
  by (simp add: invoke_def never_def)

lemma callbacks_invoke [simp]: "callbacks_of (fst (invoke cancels c ab)) = [c]"
  by (simp add: invoke_def)







lemma for_lines_append:
  "for_lines cancels parse (xs @ ys) ab =
     (case for_lines cancels parse xs ab of
        (evs, Return, ab') \<Rightarrow> (evs, Return, ab')
      | (evs, Continue, ab') \<Rightarrow>
          (case for_lines cancels parse ys ab' of (evs', fl, ab'') \<Rightarrow> (evs @ evs', fl, ab'')))"
proof (induction xs arbitrary: ab)
  case Nil
  show ?case by (simp split: prod.splits)
next
  case (Cons x xs)
  obtain e1 f1 a1 where b: "for_body cancels parse x ab = (e1, f1, a1)"
    by (cases "for_body cancels parse x ab") auto
  show ?case
  proof (cases f1)
    case Return
    with b show ?thesis by simp
  next
    case Continue
    with b Cons [of a1] show ?thesis
      by (simp split: prod.splits flow.splits)
  qed
qed


lemma while_loop_Chunk:
  "while_loop cancels parse d buf False (Chunk bs # rs) =
     (case decode d bs of
        (d', t) \<Rightarrow>
          (case for_lines cancels parse (butlast (split (buf @ t) newline)) False of
             (evs, Return, ab) \<Rightarrow> (evs, Normal)
           | (evs, Continue, ab) \<Rightarrow>
               (case while_loop cancels parse d' (last (split (buf @ t) newline)) ab rs of
                  (evs', c) \<Rightarrow> (evs @ evs', c))))"
  by (simp add: pop_def split: prod.splits)

lemma while_loop_aborted [simp]:
  "while_loop cancels parse d buf True rs = ([], Throws abort_error)"
  by (cases rs) simp_all

lemma while_loop_Nil [simp]: "while_loop cancels parse d buf False [] = ([], Awaiting)"
  by simp

lemma while_loop_Done_hd [simp]:
  "while_loop cancels parse d buf False (Done # rs) = ([], Normal)"
  by simp

lemma while_loop_Rejects [simp]:
  "while_loop cancels parse d buf False (ReadRejects e # rs) = ([], Throws e)"
  by simp

lemma while_loop_Cancel [simp]:
  "while_loop cancels parse d buf False (CancelDuringRead # rs) =
     ([CancelInvoked], Throws abort_error)"
  by simp

declare while_loop.simps [simp del]







lemma while_loop_Done:
  "while_loop cancels parse d buf ab (map Chunk cs @ Done # rest) =
     (case while_loop cancels parse d buf ab (map Chunk cs) of
        (evs, cm) \<Rightarrow> (evs, if cm = Awaiting then Normal else cm))"
proof (induction cs arbitrary: d buf ab)
  case Nil
  show ?case by (cases ab) simp_all
next
  case (Cons c cs)
  show ?case
  proof (cases ab)
    case True
    then show ?thesis by simp
  next
    case False
    then show ?thesis
      by (simp add: while_loop_Chunk Cons split: prod.splits flow.splits)
  qed
qed



lemma member_JNull [simp]: "member JNull k = None"
  by (simp add: member_def)

subsection \<open>Chunk boundaries\<close>





subsection \<open>Frames of a known type\<close>







subsection \<open>Cancellation from outside the callbacks\<close>










subsection \<open>Failures of the transport\<close>




section \<open>The claims\<close>

subsection \<open>C1: the end of the stream\<close>

text \<open>
  Claim C1 says that a stream that ends (no more chunks) before a \<open>complete\<close> or \<open>error\<close>
  frame was dispatched makes the client invoke \<open>onError\<close> once, with a fixed message. The
  code leaves the loop on \<open>done\<close> and returns: the end of the stream dispatches nothing.
  As amended: for every chunk sequence, the run that then meets the end of the stream has
  exactly the events of the run on the chunks alone, and its promise is fulfilled; so no
  \<open>onError\<close> is invoked for the end of the stream, whatever arrives afterwards.
\<close>

theorem end_of_stream_is_silent:
  "runAnalysis request cancels parse ok_response (map Chunk cs @ Done # rest) =
     (fst (runAnalysis request cancels parse ok_response (map Chunk cs)), Fulfilled)"
  by (simp add: runAnalysis_def runStream_def try_stream_def ok_response_def ok_def while_loop_Done
      split: prod.splits completion.splits)

text \<open>A stream that closes with no frame at all: no callback is invoked.\<close>

theorem stream_end_counterexample:
  "callbacks_of (fst (runAnalysis sample_request never sample_parse ok_response [Done])) = []"
  by code_simp

subsection \<open>C2: cancellation\<close>




subsection \<open>C3: at most one terminal callback\<close>


subsection \<open>C4: the order of dispatch\<close>



subsection \<open>C5: error frames\<close>




subsection \<open>C6: malformed frames\<close>

text \<open>
  Claim C6: a line with the \<open>data: \<close> prefix whose remainder is not valid JSON is logged
  and skipped, without a callback and without ending the run: the frames before and
  after it are dispatched as if the line were not there, and the exception of
  \<open>JSON.parse\<close> goes no further than the inner \<open>catch\<close>.
\<close>

theorem malformed_frame_skipped:
  assumes "startsWith bad (lit ''data: '')"
    and "parse (slice_from bad 6) = Inl e"
  shows "for_body cancels parse bad aborted =
           ([Console (ConsoleError (lit ''Error parsing SSE data:'') e)], Continue, aborted)
     \<and> callbacks_of (fst (for_lines cancels parse (before @ bad # after) aborted)) =
         callbacks_of (fst (for_lines cancels parse (before @ after) aborted))
     \<and> snd (for_lines cancels parse (before @ bad # after) aborted) =
         snd (for_lines cancels parse (before @ after) aborted)"
proof -
  from assms startsWith_data_trim [OF assms(1)]
  have b: "\<And>ab. for_body cancels parse bad ab =
      ([Console (ConsoleError (lit ''Error parsing SSE data:'') e)], Continue, ab)"
    by (simp add: for_body_def try_frame_def)
  then have "\<And>ab. callbacks_of (fst (for_lines cancels parse (bad # after) ab)) =
      callbacks_of (fst (for_lines cancels parse after ab))
    \<and> snd (for_lines cancels parse (bad # after) ab) = snd (for_lines cancels parse after ab)"
    by (simp split: prod.splits)
  then show ?thesis
    using b by (simp add: for_lines_append split: prod.splits flow.splits)
qed

theorem malformed_frame_skipped_witness:
  "callbacks_of (fst (for_lines never sample_parse
       [data_line json_progress_A, data_line json_malformed, data_line json_progress_B] False)) =
     [OnProgress progress_A, OnProgress progress_B]
   \<and> runAnalysis sample_request never sample_parse ok_response
       [Chunk (sse json_progress_A @ sse json_malformed @ sse json_progress_B)] =
     ([FetchCalled (request_body sample_request), HandleReturned,
       Callback (OnProgress progress_A),
       Console (ConsoleError (lit ''Error parsing SSE data:'') syntax_error),
       Callback (OnProgress progress_B)], Pending)"
proof -
  have h1: "startsWith (data_line json_malformed) (lit ''data: '')" by code_simp
  have h2: "sample_parse (slice_from (data_line json_malformed) 6) = Inl syntax_error" by code_simp
  have e: "callbacks_of (fst (for_lines never sample_parse
       ([data_line json_progress_A] @ [data_line json_progress_B]) False)) =
     [OnProgress progress_A, OnProgress progress_B]"
    by code_simp
  have r: "runAnalysis sample_request never sample_parse ok_response
       [Chunk (sse json_progress_A @ sse json_malformed @ sse json_progress_B)] =
     ([FetchCalled (request_body sample_request), HandleReturned,
       Callback (OnProgress progress_A),
       Console (ConsoleError (lit ''Error parsing SSE data:'') syntax_error),
       Callback (OnProgress progress_B)], Pending)"
    by code_simp
  from malformed_frame_skipped [where parse = sample_parse and cancels = never
      and aborted = False and before = "[data_line json_progress_A]"
      and after = "[data_line json_progress_B]", OF h1 h2]
  have "callbacks_of (fst (for_lines never sample_parse
       ([data_line json_progress_A] @ data_line json_malformed # [data_line json_progress_B]) False)) =
     [OnProgress progress_A, OnProgress progress_B]"
    by (simp only: e)
  then show ?thesis using r by simp
qed

subsection \<open>C7: chunk boundaries\<close>



subsection \<open>C8: ignored lines and frames\<close>

text \<open>
  Claim C8: a line that is empty after trimming, a line that does not start with
  \<open>data: \<close>, and a frame whose JSON object has a \<open>type\<close> other than \<open>progress\<close>, \<open>complete\<close>
  and \<open>error\<close> are ignored silently: nothing is dispatched or logged for them and the
  loop goes on with the next line.
\<close>

theorem ignored_lines:
  assumes "trim line = [] \<or> \<not> startsWith line (lit ''data: '')
     \<or> (\<exists>kvs. parse (slice_from line 6) = Inr (JObj kvs)
           \<and> map_of kvs (lit ''type'') \<noteq> Some (JStr (lit ''progress''))
           \<and> map_of kvs (lit ''type'') \<noteq> Some (JStr (lit ''complete''))
           \<and> map_of kvs (lit ''type'') \<noteq> Some (JStr (lit ''error'')))"
  shows "for_body cancels parse line aborted = ([], Continue, aborted)
     \<and> for_lines cancels parse (line # rest) aborted = for_lines cancels parse rest aborted"
proof -
  from assms have b: "for_body cancels parse line aborted = ([], Continue, aborted)"
    by (auto simp: for_body_def try_frame_def member_def)
  then show ?thesis by (simp split: prod.splits)
qed

theorem ignored_lines_witness:
  "for_lines never sample_parse
     [lit '' '', lit '': keep-alive'', data_line json_heartbeat, data_line json_progress_A] False =
   ([Callback (OnProgress progress_A)], Continue, False)"
proof -
  have e: "for_lines never sample_parse [data_line json_progress_A] False =
      ([Callback (OnProgress progress_A)], Continue, False)"
    by code_simp
  have h1: "trim (lit '' '') = []" by code_simp
  have h2: "\<not> startsWith (lit '': keep-alive'') (lit ''data: '')" by code_simp
  have h3: "sample_parse (slice_from (data_line json_heartbeat) 6) =
      Inr (JObj [(lit ''type'', JStr (lit ''heartbeat''))])"
    by code_simp
  have t: "map_of [(lit ''type'', JStr (lit ''heartbeat''))] (lit ''type'') \<noteq> Some (JStr (lit ''progress''))"
    "map_of [(lit ''type'', JStr (lit ''heartbeat''))] (lit ''type'') \<noteq> Some (JStr (lit ''complete''))"
    "map_of [(lit ''type'', JStr (lit ''heartbeat''))] (lit ''type'') \<noteq> Some (JStr (lit ''error''))"
    by code_simp+
  have s1: "for_lines never sample_parse
      [lit '' '', lit '': keep-alive'', data_line json_heartbeat, data_line json_progress_A] False =
    for_lines never sample_parse
      [lit '': keep-alive'', data_line json_heartbeat, data_line json_progress_A] False"
    using ignored_lines [of "lit '' ''" sample_parse never False] h1 by blast
  have s2: "for_lines never sample_parse
      [lit '': keep-alive'', data_line json_heartbeat, data_line json_progress_A] False =
    for_lines never sample_parse [data_line json_heartbeat, data_line json_progress_A] False"
    using ignored_lines [of "lit '': keep-alive''" sample_parse never False] h2 by blast
  have s3: "for_lines never sample_parse [data_line json_heartbeat, data_line json_progress_A] False =
    for_lines never sample_parse [data_line json_progress_A] False"
    using ignored_lines [of "data_line json_heartbeat" sample_parse never False] h3 t by blast
  show ?thesis by (simp only: s1 s2 s3 e)
qed

subsection \<open>C9: the handle is returned at once and failures reach \<open>onError\<close>\<close>



subsection \<open>C10: the defaults of the request body\<close>


end
